theory Spec2Isabelle
  imports
    Complex_Main
    "HOL-Library.Char_ord"
    "HOL-Library.List_Lexorder"
    "HOL-Library.Option_ord"
    "HOL-Library.Product_Lexorder"
    "HOL-Library.Multiset"
begin

section \<open>The EP screener of \<^verbatim>\<open>build_report.py\<close>\<close>

text \<open>
  The script ranks a list of ticker symbols by a heuristic score built from the latest
  price gap, the latest volume against its 50-session average and the recent news titles.
  Every function of the script is embedded below as a HOL function computing the same
  result.

  Modelling decisions, valid for the whole development:
  \<^item> Python floats are the reals: the arithmetic of the script is read exactly, so the
    rounding error of binary floating point and the values \<^verbatim>\<open>nan\<close> and \<^verbatim>\<open>inf\<close> are outside
    the model. A pandas \<^verbatim>\<open>NaN\<close> that stands for a missing cell is modelled as \<open>None\<close>.
  \<^item> Python strings are ASCII \<open>string\<close>s.
  \<^item> An exception is a value: a function that may raise returns \<open>exn + 'a\<close>, with
    \<open>Inl\<close> for the exception.
  \<^item> The market-data provider, the clock, the two files read and the two functions of the
    \<^verbatim>\<open>datetime\<close> library that turn a raw timestamp into a point in time are parameters.
\<close>

subsection \<open>Configuration\<close>

definition NEWS_LOOKBACK_DAYS :: int where
  "NEWS_LOOKBACK_DAYS = 90"

definition VOL_SMA_WINDOW :: nat where
  "VOL_SMA_WINDOW = 50"

definition GAP_THRESHOLD :: real where
  "GAP_THRESHOLD = 0.10"

definition VOL_RATIO_GOOD :: real where
  "VOL_RATIO_GOOD = 2.0"

definition NEWS_KEYWORDS :: "string list" where
  "NEWS_KEYWORDS =
     [''earnings'', ''guidance'', ''revenue'', ''eps'', ''beats'', ''miss'',
      ''acquire'', ''acquisition'', ''merger'', ''partnership'', ''strategic'',
      ''approval'', ''fda'', ''phase'', ''contract'', ''order'', ''upgrade'',
      ''initiates coverage'']"

subsection \<open>Values, exceptions, rows\<close>

text \<open>An exception carries its class and the text \<^verbatim>\<open>str(e)\<close> gives.\<close>

datatype exn = Exception (exn_class: string) (exn_str: string)

text \<open>The values a row stores: \<^verbatim>\<open>None\<close>, a float or a string.\<close>

datatype pyval = PNone | PFloat real | PStr string

text \<open>
  A row is the \<^verbatim>\<open>dict\<close> appended to \<^verbatim>\<open>rows\<close>: its keys in the order of the keyword
  arguments of \<^verbatim>\<open>dict(...)\<close>, each key once.
\<close>

type_synonym row = "(string \<times> pyval) list"

definition row_keys :: "row \<Rightarrow> string set" where
  "row_keys r = fst ` set r"

definition row_get :: "row \<Rightarrow> string \<Rightarrow> pyval option" where
  "row_get r k = map_of r k"

subsection \<open>Rounding\<close>

text \<open>
  \<^verbatim>\<open>round(x, 2)\<close>: the nearest multiple of 0.01, a tie going to the even one.
\<close>

definition round_half_even :: "real \<Rightarrow> int" where
  "round_half_even y =
     (let f = \<lfloor>y\<rfloor>; d = y - of_int f
      in if d < 1 / 2 then f
         else if 1 / 2 < d then f + 1
         else if even f then f else f + 1)"

definition py_round2 :: "real \<Rightarrow> real" where
  "py_round2 x = of_int (round_half_even (x * 100)) / 100"

subsection \<open>The composite score\<close>

text \<open>
  Lines 70 to 74 of \<^verbatim>\<open>build\<close>, one definition for each local variable.
  \<^verbatim>\<open>min(5.0, news_score)\<close> is Python's \<^verbatim>\<open>min\<close>, which on two reals is \<open>min\<close>.
\<close>

definition fresh_of :: "real \<Rightarrow> real" where
  "fresh_of news_score = min 5.0 news_score"

definition inst_of :: "real \<Rightarrow> real \<Rightarrow> real" where
  "inst_of gap_pct vol_ratio =
     (if gap_pct \<ge> GAP_THRESHOLD \<and> vol_ratio \<ge> VOL_RATIO_GOOD then 5.0
      else (if gap_pct \<ge> 0.05 \<and> vol_ratio \<ge> 1.5 then 3.0
            else (if vol_ratio \<ge> 1.2 then 1.5 else 0.0)))"

definition justified_of :: "real \<Rightarrow> real \<Rightarrow> real" where
  "justified_of fresh inst =
     (if fresh \<ge> 2.0 \<and> inst \<ge> 3.0 then 4.0 else (if fresh > 0 then 2.0 else 0.5))"

definition rerate_of :: "real \<Rightarrow> real \<Rightarrow> real" where
  "rerate_of fresh inst = min 5.0 (fresh + (inst / 2.0))"

definition overall_of :: "real \<Rightarrow> real \<Rightarrow> real \<Rightarrow> real \<Rightarrow> real" where
  "overall_of fresh inst justified rerate =
     py_round2 (fresh * 0.4 + inst * 0.35 + justified * 0.15 + rerate * 0.10)"

subsection \<open>Strings\<close>

text \<open>
  \<^verbatim>\<open>str.isspace\<close>, the line boundaries of \<^verbatim>\<open>str.splitlines\<close> and \<^verbatim>\<open>str.lower\<close>, on the
  ASCII characters.
\<close>

definition isspace :: "char \<Rightarrow> bool" where
  "isspace c = (let n = (of_char c :: nat) in (9 \<le> n \<and> n \<le> 13) \<or> (28 \<le> n \<and> n \<le> 32))"

definition is_linebreak :: "char \<Rightarrow> bool" where
  "is_linebreak c = (let n = (of_char c :: nat) in (10 \<le> n \<and> n \<le> 13) \<or> (28 \<le> n \<and> n \<le> 30))"

definition lower_char :: "char \<Rightarrow> char" where
  "lower_char c =
     (case map_of (zip ''ABCDEFGHIJKLMNOPQRSTUVWXYZ'' ''abcdefghijklmnopqrstuvwxyz'') c of
        None \<Rightarrow> c
      | Some d \<Rightarrow> d)"

definition lower :: "string \<Rightarrow> string" where
  "lower s = map lower_char s"

definition strip :: "string \<Rightarrow> string" where
  "strip s = rev (dropWhile isspace (rev (dropWhile isspace s)))"

text \<open>
  \<^verbatim>\<open>s.splitlines()\<close>: the lines of \<open>s\<close> without their line breaks; \<^verbatim>\<open>\r\n\<close> is one break,
  and a break at the very end opens no further line. \<open>cur\<close> is the line being read.
\<close>

fun splitlines_from :: "string \<Rightarrow> string \<Rightarrow> string list" where
  "splitlines_from cur [] = (if cur = [] then [] else [cur])"
| "splitlines_from cur [c] =
     (if is_linebreak c then [cur] else [cur @ [c]])"
| "splitlines_from cur (c # d # cs) =
     (if c = CHR 0x0D \<and> d = CHR 0x0A then cur # splitlines_from [] cs
      else if is_linebreak c then cur # splitlines_from [] (d # cs)
      else splitlines_from (cur @ [c]) (d # cs))"

definition splitlines :: "string \<Rightarrow> string list" where
  "splitlines s = splitlines_from [] s"

text \<open>\<^verbatim>\<open>line.split(",")\<close>: the fields between the commas, the empty ones kept.\<close>

fun split_comma_from :: "string \<Rightarrow> string \<Rightarrow> string list" where
  "split_comma_from cur [] = [cur]"
| "split_comma_from cur (c # cs) =
     (if c = CHR '','' then cur # split_comma_from [] cs
      else split_comma_from (cur @ [c]) cs)"

definition split_comma :: "string \<Rightarrow> string list" where
  "split_comma s = split_comma_from [] s"

text \<open>\<^verbatim>\<open>kw in title\<close>: \<open>kw\<close> occurs in \<open>title\<close> as a contiguous substring.\<close>

fun contains :: "string \<Rightarrow> string \<Rightarrow> bool" where
  "contains kw [] = (kw = [])"
| "contains kw (c # cs) = (take (length kw) (c # cs) = kw \<or> contains kw cs)"

subsection \<open>Loading the universe\<close>

text \<open>
  \<^verbatim>\<open>load_tickers(path)\<close>. The argument is what \<^verbatim>\<open>open(path).read()\<close> gives: the text of
  the file, or the exception raised when the file cannot be read, which \<^verbatim>\<open>load_tickers\<close>
  lets through.
\<close>

definition load_tickers :: "exn + string \<Rightarrow> exn + string list" where
  "load_tickers file =
     (case file of
        Inl e \<Rightarrow> Inl e
      | Inr txt \<Rightarrow>
          (let raw = concat (map (\<lambda>line. map strip (split_comma line)) (splitlines txt))
           in Inr (filter (\<lambda>t. t \<noteq> []) raw)))"

subsection \<open>The universe diff\<close>

text \<open>
  \<^verbatim>\<open>compute_diff()\<close>. \<open>git_show\<close> is the standard output of
  \<^verbatim>\<open>git show HEAD~1:qm1w.txt 2>/dev/null\<close> as \<^verbatim>\<open>os.popen(...).read()\<close> returns it: \<open>None\<close>
  when the command fails or there is no previous version, in which case nothing is written
  to the standard output and \<^verbatim>\<open>read()\<close> gives the empty string. \<open>file\<close> is the reading
  of the universe file, as for \<open>load_tickers\<close>. \<^verbatim>\<open>sorted(list(s))\<close> of a set of strings is
  its elements in ascending lexicographic order.
\<close>

definition popen_read :: "string option \<Rightarrow> string" where
  "popen_read out = (case out of None \<Rightarrow> [] | Some s \<Rightarrow> s)"

definition prev_tickers :: "string \<Rightarrow> string set" where
  "prev_tickers prev_content =
     set (concat (map (\<lambda>line. map strip (filter (\<lambda>t. strip t \<noteq> []) (split_comma line)))
                      (splitlines prev_content)))"

definition compute_diff :: "string option \<Rightarrow> exn + string \<Rightarrow> exn + (string list \<times> string list)" where
  "compute_diff git_show file =
     (let prev_content = popen_read git_show;
          prev = prev_tickers prev_content
      in case load_tickers file of
           Inl e \<Rightarrow> Inl e
         | Inr tickers \<Rightarrow>
             (let cur = set tickers
              in Inr (sorted_list_of_set (cur - prev), sorted_list_of_set (prev - cur))))"

subsection \<open>The news score\<close>

text \<open>
  A news item is a \<^verbatim>\<open>dict\<close>; the script reads three of its keys with \<^verbatim>\<open>n.get\<close>, which
  gives \<^verbatim>\<open>None\<close> for a key that is not there. A timestamp is a number (\<^verbatim>\<open>int\<close> or
  \<^verbatim>\<open>float\<close>) or a string; a title is a string.
\<close>

datatype tsval = TNum real | TStr string

record news_item =
  providerPublishTime :: "tsval option"
  published :: "tsval option"
  title :: "string option"

text \<open>
  A \<^verbatim>\<open>datetime\<close> is naive (no \<^verbatim>\<open>tzinfo\<close>) or aware; the number is its microseconds
  since 1970-01-01T00:00:00, on its own clock for a naive one.
  The library's \<^verbatim>\<open>utcfromtimestamp\<close> gives a naive \<^verbatim>\<open>datetime\<close> or raises;
  \<^verbatim>\<open>fromisoformat\<close> gives a naive one for a string without UTC offset, an aware one for a
  string with an offset, or raises. \<open>None\<close> stands for raising.
\<close>

datatype datetime = Naive int | Aware int

record datetime_lib =
  utcfromtimestamp :: "int \<Rightarrow> int option"
  fromisoformat :: "string \<Rightarrow> datetime option"

text \<open>Truth value of a timestamp, for \<^verbatim>\<open>a or b\<close>: zero and the empty string are false.\<close>

definition truthy :: "tsval \<Rightarrow> bool" where
  "truthy v = (case v of TNum x \<Rightarrow> x \<noteq> 0 | TStr s \<Rightarrow> s \<noteq> [])"

definition py_or :: "tsval option \<Rightarrow> tsval option \<Rightarrow> tsval option" where
  "py_or a b = (case a of None \<Rightarrow> b | Some v \<Rightarrow> if truthy v then a else b)"

text \<open>\<^verbatim>\<open>int(ts)\<close> of a number: towards zero.\<close>

definition py_int :: "real \<Rightarrow> int" where
  "py_int x = (if 0 \<le> x then \<lfloor>x\<rfloor> else \<lceil>x\<rceil>)"

text \<open>
  Line 29, inside the \<^verbatim>\<open>try\<close>: \<open>None\<close> when the \<^verbatim>\<open>except\<close> branch is taken.
  \<^verbatim>\<open>str(ts).replace("Z","")\<close> deletes every \<^verbatim>\<open>Z\<close> of the string.
\<close>

definition resolve_ts :: "datetime_lib \<Rightarrow> tsval \<Rightarrow> datetime option" where
  "resolve_ts lib ts =
     (case ts of
        TNum x \<Rightarrow> map_option Naive (utcfromtimestamp lib (py_int x))
      | TStr s \<Rightarrow> fromisoformat lib (filter (\<lambda>c. c \<noteq> CHR ''Z'') s))"

text \<open>
  \<^verbatim>\<open>published < since_ts\<close>, with \<^verbatim>\<open>since_ts\<close> naive: two naive values are compared, an
  aware one against a naive one raises \<^verbatim>\<open>TypeError\<close>.
\<close>

definition naive_aware_error :: exn where
  "naive_aware_error =
     Exception ''TypeError'' ''can't compare offset-naive and offset-aware datetimes''"

definition dt_less :: "datetime \<Rightarrow> int \<Rightarrow> exn + bool" where
  "dt_less pub since_ts =
     (case pub of
        Naive p \<Rightarrow> Inr (p < since_ts)
      | Aware p \<Rightarrow> Inl naive_aware_error)"

text \<open>Lines 34 to 37: the inner loop over the keywords, \<open>s\<close> the running value.\<close>

fun kw_loop :: "string list \<Rightarrow> string \<Rightarrow> real \<Rightarrow> real" where
  "kw_loop [] ttl s = s"
| "kw_loop (kw # kws) ttl s = kw_loop kws ttl (if contains kw ttl then s + 1.0 else s)"

definition title_of :: "news_item \<Rightarrow> string" where
  "title_of n = lower (case title n of None \<Rightarrow> [] | Some t \<Rightarrow> t)"

text \<open>Lines 25 to 38: the loop over the items, \<open>score\<close> the running sum.\<close>

fun news_loop :: "datetime_lib \<Rightarrow> int \<Rightarrow> news_item list \<Rightarrow> real \<Rightarrow> exn + real" where
  "news_loop lib since_ts [] score = Inr score"
| "news_loop lib since_ts (n # ns) score =
     (case py_or (providerPublishTime n) (published n) of
        None \<Rightarrow> news_loop lib since_ts ns score
      | Some ts \<Rightarrow>
          (case resolve_ts lib ts of
             None \<Rightarrow> news_loop lib since_ts ns score
           | Some pub \<Rightarrow>
               (case dt_less pub since_ts of
                  Inl e \<Rightarrow> Inl e
                | Inr True \<Rightarrow> news_loop lib since_ts ns score
                | Inr False \<Rightarrow>
                    news_loop lib since_ts ns
                      (score + min (kw_loop NEWS_KEYWORDS (title_of n) 0.5) 3.0))))"

definition get_news_score :: "datetime_lib \<Rightarrow> news_item list option \<Rightarrow> int \<Rightarrow> exn + real" where
  "get_news_score lib news_items since_ts =
     (case news_loop lib since_ts (case news_items of None \<Rightarrow> [] | Some ns \<Rightarrow> ns) 0.0 of
        Inl e \<Rightarrow> Inl e
      | Inr score \<Rightarrow> Inr (min score 10.0))"

subsection \<open>The gap and volume metrics\<close>

text \<open>
  One session of the price history, \<open>bar_date\<close> being \<^verbatim>\<open>str(row.name.date())\<close>; the
  history is in chronological order.
\<close>

record bar =
  bar_date :: string
  bar_open :: real
  bar_close :: real
  bar_volume :: real

record metric_result =
  m_gap_pct :: real
  m_vol_ratio :: real
  m_close :: real
  m_date :: string

text \<open>The provider: each call gives its result or raises.\<close>

record provider =
  history :: "string \<Rightarrow> exn + bar list"
  news :: "string \<Rightarrow> exn + news_item list option"

text \<open>
  \<^verbatim>\<open>Series.rolling(w).mean()\<close>: at position \<open>i\<close> the mean of the \<open>w\<close> values ending at
  \<open>i\<close>, and \<^verbatim>\<open>NaN\<close> where fewer than \<open>w\<close> values are there.
\<close>

definition rolling_mean :: "nat \<Rightarrow> real list \<Rightarrow> real option list" where
  "rolling_mean w xs =
     map (\<lambda>i. if i + 1 < w then None
               else Some (sum_list (take w (drop (i + 1 - w) xs)) / real w))
         [0..<length xs]"

text \<open>\<^verbatim>\<open>xs.iloc[-k]\<close>, read only where \<open>k \<le> length xs\<close>.\<close>

definition iloc_neg :: "'a list \<Rightarrow> nat \<Rightarrow> 'a" where
  "iloc_neg xs k = xs ! (length xs - k)"

text \<open>\<^verbatim>\<open>max(1.0, adv)\<close>: Python's \<^verbatim>\<open>max\<close> keeps 1.0 unless \<^verbatim>\<open>adv > 1.0\<close>, so also for \<^verbatim>\<open>NaN\<close>.\<close>

definition max_one :: "real option \<Rightarrow> real" where
  "max_one adv = (case adv of None \<Rightarrow> 1.0 | Some a \<Rightarrow> if a > 1.0 then a else 1.0)"

definition compute_gap_and_volume_metrics :: "provider \<Rightarrow> string \<Rightarrow> exn + metric_result option" where
  "compute_gap_and_volume_metrics prov ticker =
     (case history prov ticker of
        Inl e \<Rightarrow> Inl e
      | Inr hist \<Rightarrow>
          if hist = [] \<or> length hist < VOL_SMA_WINDOW + 2 then Inr None
          else
            (let adv = rolling_mean VOL_SMA_WINDOW (map bar_volume hist);
                 last = iloc_neg hist 1; prev = iloc_neg hist 2; last_adv = iloc_neg adv 1;
                 gap_pct = (bar_open last - bar_close prev) / bar_close prev;
                 vol_ratio = bar_volume last / max_one last_adv
             in Inr (Some \<lparr>m_gap_pct = gap_pct, m_vol_ratio = vol_ratio,
                            m_close = bar_close last, m_date = bar_date last\<rparr>)))"

subsection \<open>The rows of \<^verbatim>\<open>build\<close>\<close>

text \<open>Line 68: the row of a ticker whose history is too short.\<close>

definition insufficient_row :: "string \<Rightarrow> row" where
  "insufficient_row t =
     [(''ticker'', PStr t), (''overall'', PFloat 0.0), (''gap_pct'', PNone),
      (''vol_ratio'', PNone), (''fresh_catalyst_score'', PFloat 0.0),
      (''justified_story_score'', PFloat 0.0), (''rerating_potential'', PFloat 0.0)]"

text \<open>Lines 70 to 75: the row of a scored ticker.\<close>

definition scored_row :: "string \<Rightarrow> metric_result \<Rightarrow> real \<Rightarrow> row" where
  "scored_row t metrics news_score =
     (let fresh = fresh_of news_score;
          inst = inst_of (m_gap_pct metrics) (m_vol_ratio metrics);
          justified = justified_of fresh inst;
          rerate = rerate_of fresh inst;
          overall = overall_of fresh inst justified rerate
      in [(''ticker'', PStr t),
          (''gap_pct'', PFloat (py_round2 (m_gap_pct metrics * 100))),
          (''vol_ratio'', PFloat (py_round2 (m_vol_ratio metrics))),
          (''fresh_catalyst_score'', PFloat (py_round2 fresh)),
          (''justified_story_score'', PFloat (py_round2 justified)),
          (''rerating_potential'', PFloat (py_round2 rerate)),
          (''overall'', PFloat overall),
          (''last_date'', PStr (m_date metrics)),
          (''price'', PFloat (m_close metrics))])"

text \<open>Line 77: the row of a ticker whose processing raised.\<close>

definition error_row :: "string \<Rightarrow> exn \<Rightarrow> row" where
  "error_row t e = [(''ticker'', PStr t), (''overall'', PFloat 0.0), (''error'', PStr (exn_str e))]"

text \<open>Lines 64 to 75, the body of the \<^verbatim>\<open>try\<close>: the row appended, or the exception raised.\<close>

definition try_ticker :: "datetime_lib \<Rightarrow> provider \<Rightarrow> int \<Rightarrow> string \<Rightarrow> exn + row" where
  "try_ticker lib prov since_ts t =
     (case compute_gap_and_volume_metrics prov t of
        Inl e \<Rightarrow> Inl e
      | Inr metrics \<Rightarrow>
          (case news prov t of
             Inl e \<Rightarrow> Inl e
           | Inr nws \<Rightarrow>
               (case get_news_score lib (Some (case nws of None \<Rightarrow> [] | Some ns \<Rightarrow> ns)) since_ts of
                  Inl e \<Rightarrow> Inl e
                | Inr news_score \<Rightarrow>
                    (case metrics of
                       None \<Rightarrow> Inr (insufficient_row t)
                     | Some m \<Rightarrow> Inr (scored_row t m news_score)))))"

text \<open>Lines 63 to 77: the \<^verbatim>\<open>try\<close> with its \<^verbatim>\<open>except Exception\<close>.\<close>

definition process_ticker :: "datetime_lib \<Rightarrow> provider \<Rightarrow> int \<Rightarrow> string \<Rightarrow> row" where
  "process_ticker lib prov since_ts t =
     (case try_ticker lib prov since_ts t of
        Inl e \<Rightarrow> error_row t e
      | Inr r \<Rightarrow> r)"

text \<open>Lines 62 to 77: the loop over the tickers, \<open>rows\<close> the list built so far.\<close>

fun build_loop :: "datetime_lib \<Rightarrow> provider \<Rightarrow> int \<Rightarrow> string list \<Rightarrow> row list \<Rightarrow> row list" where
  "build_loop lib prov since_ts [] rows = rows"
| "build_loop lib prov since_ts (t # ts) rows =
     build_loop lib prov since_ts ts (rows @ [process_ticker lib prov since_ts t])"

subsection \<open>Ranking\<close>

text \<open>
  \<^verbatim>\<open>pd.DataFrame(rows).sort_values(by=[...], ascending=[False, False, False])\<close>.
  The frame has one column for each key some row has; a row without the key, or with
  \<^verbatim>\<open>None\<close> under it, has \<^verbatim>\<open>NaN\<close> in that column. \<^verbatim>\<open>sort_values\<close> raises \<^verbatim>\<open>KeyError\<close> for a
  name in \<^verbatim>\<open>by\<close> that is no column. Otherwise it orders the rows by the columns of
  \<^verbatim>\<open>by\<close>, the first one first, each descending with \<^verbatim>\<open>NaN\<close> last (the default
  \<^verbatim>\<open>na_position\<close>), and keeps rows that agree on all of them in their order (the sort on
  several columns is stable).
\<close>

definition cell :: "row \<Rightarrow> string \<Rightarrow> real option" where
  "cell r k = (case row_get r k of Some (PFloat x) \<Rightarrow> Some x | _ \<Rightarrow> None)"

text \<open>\<open>a\<close> comes strictly before \<open>b\<close> in a descending column with \<^verbatim>\<open>NaN\<close> last.\<close>

definition desc_before :: "real option \<Rightarrow> real option \<Rightarrow> bool" where
  "desc_before a b =
     (case a of
        None \<Rightarrow> False
      | Some x \<Rightarrow> (case b of None \<Rightarrow> True | Some y \<Rightarrow> y < x))"

fun row_before :: "string list \<Rightarrow> row \<Rightarrow> row \<Rightarrow> bool" where
  "row_before [] a b = False"
| "row_before (k # ks) a b =
     (desc_before (cell a k) (cell b k) \<or> (cell a k = cell b k \<and> row_before ks a b))"

fun insert_row :: "string list \<Rightarrow> row \<Rightarrow> row list \<Rightarrow> row list" where
  "insert_row by x [] = [x]"
| "insert_row by x (y # ys) =
     (if row_before by y x then y # insert_row by x ys else x # y # ys)"

fun sort_rows :: "string list \<Rightarrow> row list \<Rightarrow> row list" where
  "sort_rows by [] = []"
| "sort_rows by (x # xs) = insert_row by x (sort_rows by xs)"

definition columns :: "row list \<Rightarrow> string set" where
  "columns rows = \<Union> (row_keys ` set rows)"

definition key_error :: "string \<Rightarrow> exn" where
  "key_error k = Exception ''KeyError'' ([CHR 0x27] @ k @ [CHR 0x27])"

definition sort_values :: "row list \<Rightarrow> string list \<Rightarrow> exn + row list" where
  "sort_values rows by =
     (case filter (\<lambda>k. k \<notin> columns rows) by of
        [] \<Rightarrow> Inr (sort_rows by rows)
      | k # _ \<Rightarrow> Inl (key_error k))"

definition SORT_BY :: "string list" where
  "SORT_BY = [''overall'', ''fresh_catalyst_score'', ''vol_ratio'']"

subsection \<open>The run\<close>

text \<open>
  \<^verbatim>\<open>build()\<close> up to the values handed to the two writers: the ranked rows, and the two
  lists of the diff. \<open>now\<close> is \<^verbatim>\<open>datetime.utcnow()\<close> in microseconds, \<open>file\<close> the reading
  of the universe file, \<open>git_show\<close> the output of the version history.
\<close>

definition since_of :: "int \<Rightarrow> int" where
  "since_of now = now - NEWS_LOOKBACK_DAYS * 86400 * 1000000"

definition build ::
  "datetime_lib \<Rightarrow> provider \<Rightarrow> int \<Rightarrow> exn + string \<Rightarrow> string option
     \<Rightarrow> exn + (row list \<times> string list \<times> string list)" where
  "build lib prov now file git_show =
     (case load_tickers file of
        Inl e \<Rightarrow> Inl e
      | Inr tickers \<Rightarrow>
          (let since_ts = since_of now;
               rows = build_loop lib prov since_ts tickers []
           in case sort_values rows SORT_BY of
                Inl e \<Rightarrow> Inl e
              | Inr df \<Rightarrow>
                  (case compute_diff git_show file of
                     Inl e \<Rightarrow> Inl e
                   | Inr (added, removed) \<Rightarrow> Inr (df, added, removed))))"

subsection \<open>The ranking order in words\<close>


subsection \<open>The news score in words\<close>

text \<open>
  What the news score is meant to compute, for comparison with \<open>news_loop\<close>.
  \<open>item_dt\<close> is the point in time an item's timestamp resolves to, \<open>None\<close> when the
  timestamp is missing or cannot be parsed. An item qualifies when it resolves to a naive
  point in time that is not before the cutoff; it contributes 0.5 plus 1.0 for each
  keyword occurring in its lowercased title, at most 3.0. An item whose timestamp resolves
  to an aware \<^verbatim>\<open>datetime\<close> cannot be compared with the cutoff.
\<close>

definition item_dt :: "datetime_lib \<Rightarrow> news_item \<Rightarrow> datetime option" where
  "item_dt lib n =
     (case py_or (providerPublishTime n) (published n) of
        None \<Rightarrow> None
      | Some ts \<Rightarrow> resolve_ts lib ts)"

definition qualifies :: "datetime_lib \<Rightarrow> int \<Rightarrow> news_item \<Rightarrow> bool" where
  "qualifies lib since_ts n =
     (case item_dt lib n of Some (Naive p) \<Rightarrow> \<not> p < since_ts | _ \<Rightarrow> False)"

definition is_aware :: "datetime_lib \<Rightarrow> news_item \<Rightarrow> bool" where
  "is_aware lib n = (case item_dt lib n of Some (Aware p) \<Rightarrow> True | _ \<Rightarrow> False)"

definition kw_count :: "string \<Rightarrow> nat" where
  "kw_count ttl = length (filter (\<lambda>kw. contains kw ttl) NEWS_KEYWORDS)"

definition contribution :: "news_item \<Rightarrow> real" where
  "contribution n = min 3.0 (0.5 + 1.0 * real (kw_count (title_of n)))"

subsection \<open>Example inputs\<close>

text \<open>
  Two sessions, and a provider with a history of 52 sessions for two tickers, of 51
  sessions for a third, and an exception for every other ticker.
\<close>

definition b0 :: bar where
  "b0 = \<lparr>bar_date = ''2024-03-14'', bar_open = 100, bar_close = 100, bar_volume = 1000\<rparr>"

definition bL :: bar where
  "bL = \<lparr>bar_date = ''2024-03-15'', bar_open = 112, bar_close = 115, bar_volume = 2500\<rparr>"

text \<open>
  A \<^verbatim>\<open>datetime\<close> library on the timestamps of the examples: 2024-03-01T00:00:00 is
  1709251200 seconds after the epoch, 2020-01-01T00:00:00+00:00 is 1577836800 seconds
  after it and carries an offset.
\<close>

definition lib0 :: datetime_lib where
  "lib0 = \<lparr>utcfromtimestamp = (\<lambda>n. Some (n * 1000000)),
            fromisoformat = (\<lambda>s.
              if s = ''2024-03-01T00:00:00'' then Some (Naive 1709251200000000)
              else if s = ''2020-01-01T00:00:00+00:00'' then Some (Aware 1577836800000000)
              else None)\<rparr>"

definition item_fresh :: news_item where
  "item_fresh = \<lparr>providerPublishTime = Some (TNum 1709251200), published = None,
                  title = Some ''Acme beats EPS, wins FDA approval''\<rparr>"


definition item_old :: news_item where
  "item_old = \<lparr>providerPublishTime = Some (TNum 1000000000), published = None,
                title = Some ''Earnings''\<rparr>"

definition item_missing :: news_item where
  "item_missing = \<lparr>providerPublishTime = None, published = None, title = Some ''Merger''\<rparr>"

definition item_bad :: news_item where
  "item_bad = \<lparr>providerPublishTime = None, published = Some (TStr ''yesterday''),
                title = Some ''Upgrade''\<rparr>"

definition item_aware :: news_item where
  "item_aware = \<lparr>providerPublishTime = None,
                  published = Some (TStr ''2020-01-01T00:00:00+00:00''),
                  title = Some ''Earnings''\<rparr>"

definition prov0 :: provider where
  "prov0 =
     \<lparr>history = (\<lambda>t.
        if t = ''LONG'' \<or> t = ''TZ'' then Inr (replicate 51 b0 @ [bL])
        else if t = ''SHORT'' then Inr (replicate 50 b0 @ [bL])
        else Inl (Exception ''Exception'' ''no data'')),
      news = (\<lambda>t.
        if t = ''LONG'' then Inr (Some [item_fresh, item_old, item_missing, item_bad])
        else if t = ''TZ'' then Inr (Some [item_aware])
        else Inr None)\<rparr>"

text \<open>The clock of the examples: 2024-03-15T00:00:00, in microseconds.\<close>

definition now0 :: int where
  "now0 = 1710460800000000"

text \<open>The metrics of the 52-session history of the examples.\<close>

definition mL :: metric_result where
  "mL = \<lparr>m_gap_pct = 0.12, m_vol_ratio = 2500 / 1030, m_close = 115, m_date = ''2024-03-15''\<rparr>"





text \<open>A universe file of two lines.\<close>

definition cur_txt :: string where
  "cur_txt = ''B, C'' @ [CHR 0x0A] @ ''D'' @ [CHR 0x0A]"

section \<open>Properties\<close>

subsection \<open>The composite score\<close>

text \<open>
  Claim C5. For every pair of a gap and a volume ratio the institutional-interest score is
  one of 0.0, 1.5, 3.0 and 5.0, and each value is taken exactly on its tier, the first
  matching tier winning: 5.0 where the gap is at least 0.10 and the ratio at least 2.0;
  3.0 where that fails and the gap is at least 0.05 and the ratio at least 1.5; 1.5 where
  both fail and the ratio is at least 1.2; 0.0 where all three fail. The four tiers are
  therefore mutually exclusive and exhaustive.
\<close>

theorem inst_tiers:
  "inst_of g v \<in> {0.0, 1.5, 3.0, 5.0} \<and>
   (inst_of g v = 5.0 \<longleftrightarrow> (g \<ge> 0.10 \<and> v \<ge> 2.0)) \<and>
   (inst_of g v = 3.0 \<longleftrightarrow>
      (\<not> (g \<ge> 0.10 \<and> v \<ge> 2.0) \<and> g \<ge> 0.05 \<and> v \<ge> 1.5)) \<and>
   (inst_of g v = 1.5 \<longleftrightarrow>
      (\<not> (g \<ge> 0.10 \<and> v \<ge> 2.0) \<and> \<not> (g \<ge> 0.05 \<and> v \<ge> 1.5) \<and> v \<ge> 1.2)) \<and>
   (inst_of g v = 0.0 \<longleftrightarrow>
      (\<not> (g \<ge> 0.10 \<and> v \<ge> 2.0) \<and> \<not> (g \<ge> 0.05 \<and> v \<ge> 1.5) \<and> \<not> v \<ge> 1.2))"
  by (simp add: inst_of_def GAP_THRESHOLD_def VOL_RATIO_GOOD_def)

theorem inst_tiers_witness:
  "inst_of 0.07 1.6 = 3.0 \<and> inst_of 0.07 1.6 \<in> {0.0, 1.5, 3.0, 5.0}"
  using inst_tiers [of "0.07" "1.6"] by simp

text \<open>
  Claim C10. With a gap of 0.12, a volume ratio of 2.5 and a news score of 4.0 the
  composite score has freshness 4.0, institutional interest 5.0, justified story 4.0,
  rerating potential 5.0 and overall score 4.45, the rounding of
  4.0 * 0.40 + 5.0 * 0.35 + 4.0 * 0.15 + 5.0 * 0.10 to two decimals.
\<close>

theorem composite_example:
  "fresh_of 4.0 = 4.0 \<and>
   inst_of 0.12 2.5 = 5.0 \<and>
   justified_of (fresh_of 4.0) (inst_of 0.12 2.5) = 4.0 \<and>
   rerate_of (fresh_of 4.0) (inst_of 0.12 2.5) = 5.0 \<and>
   overall_of (fresh_of 4.0) (inst_of 0.12 2.5)
     (justified_of (fresh_of 4.0) (inst_of 0.12 2.5))
     (rerate_of (fresh_of 4.0) (inst_of 0.12 2.5))
     = py_round2 (4.0 * 0.40 + 5.0 * 0.35 + 4.0 * 0.15 + 5.0 * 0.10) \<and>
   py_round2 (4.0 * 0.40 + 5.0 * 0.35 + 4.0 * 0.15 + 5.0 * 0.10) = 4.45"
  by (simp add: fresh_of_def inst_of_def justified_of_def rerate_of_def overall_of_def
      GAP_THRESHOLD_def VOL_RATIO_GOOD_def py_round2_def round_half_even_def Let_def)

subsection \<open>The metrics\<close>

lemma rolling_mean_last:
  assumes "0 < w" "w \<le> length xs"
  shows "iloc_neg (rolling_mean w xs) (Suc 0) = Some (sum_list (drop (length xs - w) xs) / real w)"
proof -
  have len: "length (rolling_mean w xs) = length xs"
    by (simp add: rolling_mean_def)
  have pos: "length xs - 1 < length xs"
    using assms by simp
  have "iloc_neg (rolling_mean w xs) (Suc 0) = rolling_mean w xs ! (length xs - 1)"
    by (simp add: iloc_neg_def len)
  also have "\<dots> = (if (length xs - 1) + 1 < w then None
       else Some (sum_list (take w (drop ((length xs - 1) + 1 - w) xs)) / real w))"
    unfolding rolling_mean_def using pos by (simp del: upt_Suc)
  also have "\<dots> = Some (sum_list (take w (drop (length xs - w) xs)) / real w)"
    using assms by simp
  also have "take w (drop (length xs - w) xs) = drop (length xs - w) xs"
    using assms by simp
  finally show ?thesis .
qed

lemma max_one_Some: "max_one (Some a) = max 1.0 a"
  by (simp add: max_one_def max_def)

lemma metrics_short:
  assumes "history prov t = Inr hist" "length hist < VOL_SMA_WINDOW + 2"
  shows "compute_gap_and_volume_metrics prov t = Inr None"
  using assms by (simp add: compute_gap_and_volume_metrics_def)

lemma metrics_long:
  assumes "history prov t = Inr hist" "VOL_SMA_WINDOW + 2 \<le> length hist"
  shows "compute_gap_and_volume_metrics prov t =
        Inr (Some \<lparr>m_gap_pct = (bar_open (last hist) - bar_close (hist ! (length hist - 2)))
                              / bar_close (hist ! (length hist - 2)),
                   m_vol_ratio = bar_volume (last hist)
                      / max 1.0 (sum_list (map bar_volume (drop (length hist - VOL_SMA_WINDOW) hist))
                                  / real VOL_SMA_WINDOW),
                   m_close = bar_close (last hist), m_date = bar_date (last hist)\<rparr>)"
proof -
  have ne: "hist \<noteq> []"
    using assms(2) by auto
  have w: "0 < VOL_SMA_WINDOW" "VOL_SMA_WINDOW \<le> length (map bar_volume hist)"
    using assms(2) by (simp_all add: VOL_SMA_WINDOW_def)
  have adv: "iloc_neg (rolling_mean VOL_SMA_WINDOW (map bar_volume hist)) (Suc 0) =
     Some (sum_list (map bar_volume (drop (length hist - VOL_SMA_WINDOW) hist))
             / real VOL_SMA_WINDOW)"
    using rolling_mean_last [OF w] by (simp add: drop_map)
  have lst: "iloc_neg hist (Suc 0) = last hist"
    using ne by (simp add: iloc_neg_def last_conv_nth)
  have prv: "iloc_neg hist 2 = hist ! (length hist - 2)"
    by (simp add: iloc_neg_def)
  show ?thesis
    using assms ne
    by (simp add: compute_gap_and_volume_metrics_def Let_def adv lst prv max_one_Some)
qed

lemma history_short: "history prov0 ''SHORT'' = Inr (replicate 50 b0 @ [bL])"
  by (simp add: prov0_def)

lemma history_long: "history prov0 ''LONG'' = Inr (replicate 51 b0 @ [bL])"
  by (simp add: prov0_def)

lemma history_tz: "history prov0 ''TZ'' = Inr (replicate 51 b0 @ [bL])"
  by (simp add: prov0_def)

lemma history_long_prev: "(replicate 51 b0 @ [bL]) ! 50 = b0"
  by (simp add: nth_append)

lemma metrics_of_short: "compute_gap_and_volume_metrics prov0 ''SHORT'' = Inr None"
  using metrics_short [OF history_short] by (simp add: VOL_SMA_WINDOW_def)

lemma metrics_of_52:
  assumes "history prov0 t = Inr (replicate 51 b0 @ [bL])"
  shows "compute_gap_and_volume_metrics prov0 t = Inr (Some mL)"
proof -
  have "compute_gap_and_volume_metrics prov0 t =
      Inr (Some \<lparr>m_gap_pct = (bar_open bL - bar_close b0) / bar_close b0,
                 m_vol_ratio = bar_volume bL /
                    max 1 ((sum_list (replicate 49 (bar_volume b0)) + bar_volume bL) / 50),
                 m_close = bar_close bL, m_date = bar_date bL\<rparr>)"
    using metrics_long [OF assms] by (simp add: VOL_SMA_WINDOW_def history_long_prev)
  then show ?thesis
    by (simp add: b0_def bL_def mL_def sum_list_replicate)
qed



subsection \<open>The news score\<close>

lemma contains_iff: "contains kw s \<longleftrightarrow> (\<exists>ps ss. s = ps @ kw @ ss)"
proof (induction s)
  case Nil
  then show ?case by auto
next
  case (Cons c cs)
  show ?case
  proof
    assume "contains kw (c # cs)"
    then consider "take (length kw) (c # cs) = kw" | "contains kw cs" by auto
    then show "\<exists>ps ss. c # cs = ps @ kw @ ss"
    proof cases
      case 1
      then have "c # cs = [] @ kw @ drop (length kw) (c # cs)"
        by (metis append_Nil append_take_drop_id)
      then show ?thesis by blast
    next
      case 2
      then obtain ps ss where "cs = ps @ kw @ ss" using Cons.IH by auto
      then have "c # cs = (c # ps) @ kw @ ss" by simp
      then show ?thesis by blast
    qed
  next
    assume "\<exists>ps ss. c # cs = ps @ kw @ ss"
    then obtain ps ss where eq: "c # cs = ps @ kw @ ss" by auto
    show "contains kw (c # cs)"
    proof (cases ps)
      case Nil
      then have "take (length kw) (c # cs) = kw" using eq by simp
      then show ?thesis by simp
    next
      case (Cons p ps')
      then have "cs = ps' @ kw @ ss" using eq by simp
      then have "contains kw cs" using Cons.IH by blast
      then show ?thesis by simp
    qed
  qed
qed

lemma kw_loop_count:
  "kw_loop kws ttl s = s + real (length (filter (\<lambda>kw. contains kw ttl) kws))"
  by (induction kws arbitrary: s) auto

lemma item_contribution:
  "min (kw_loop NEWS_KEYWORDS (title_of n) (1 / 2)) 3 = contribution n"
  by (simp add: kw_loop_count contribution_def kw_count_def min.commute)


lemma news_loop_step:
  "news_loop lib since_ts (n # ns) score =
     (if is_aware lib n then Inl naive_aware_error
      else if qualifies lib since_ts n then news_loop lib since_ts ns (score + contribution n)
      else news_loop lib since_ts ns score)"
  by (auto simp: is_aware_def qualifies_def item_dt_def dt_less_def item_contribution
      split: option.splits datetime.splits)

lemma news_loop_eq:
  "news_loop lib since_ts ns score =
     (if list_ex (is_aware lib) ns then Inl naive_aware_error
      else Inr (score + sum_list (map contribution (filter (qualifies lib since_ts) ns))))"
proof (induction ns arbitrary: score)
  case Nil
  then show ?case by simp
next
  case (Cons n ns)
  show ?case
    unfolding news_loop_step by (simp add: Cons.IH)
qed

lemma get_news_score_eq:
  "get_news_score lib (Some ns) since_ts =
     (if list_ex (is_aware lib) ns then Inl naive_aware_error
      else Inr (min (sum_list (map contribution (filter (qualifies lib since_ts) ns))) 10.0))"
  by (simp add: get_news_score_def news_loop_eq)



lemma dt_fresh: "item_dt lib0 item_fresh = Some (Naive 1709251200000000)"
  by (simp add: item_dt_def item_fresh_def py_or_def truthy_def resolve_ts_def lib0_def py_int_def)


lemma dt_old: "item_dt lib0 item_old = Some (Naive 1000000000000000)"
  by (simp add: item_dt_def item_old_def py_or_def truthy_def resolve_ts_def lib0_def py_int_def)

lemma dt_missing: "item_dt lib0 item_missing = None"
  by (simp add: item_dt_def item_missing_def py_or_def)

lemma dt_bad: "item_dt lib0 item_bad = None"
  by (simp add: item_dt_def item_bad_def py_or_def truthy_def resolve_ts_def lib0_def)

lemma dt_aware: "item_dt lib0 item_aware = Some (Aware 1577836800000000)"
  by (simp add: item_dt_def item_aware_def py_or_def truthy_def resolve_ts_def lib0_def)

lemma since0: "since_of now0 = 1702684800000000"
  by (simp add: since_of_def now0_def NEWS_LOOKBACK_DAYS_def)

lemma title_fresh: "title_of item_fresh = ''acme beats eps, wins fda approval''"
  by (simp add: title_of_def item_fresh_def lower_def lower_char_def)


lemma kw_fresh: "kw_count ''acme beats eps, wins fda approval'' = 4"
  by (simp add: kw_count_def NEWS_KEYWORDS_def)


lemma contribution_fresh: "contribution item_fresh = 3"
  by (simp add: contribution_def title_fresh kw_fresh)


lemma score_long:
  "get_news_score lib0 (Some [item_fresh, item_old, item_missing, item_bad]) (since_of now0) = Inr 3"
  by (simp add: get_news_score_eq is_aware_def qualifies_def dt_fresh dt_old dt_missing dt_bad
      since0 contribution_fresh)

lemma score_aware:
  "get_news_score lib0 (Some [item_aware]) (since_of now0) = Inl naive_aware_error"
  by (simp add: get_news_score_eq is_aware_def dt_aware)



text \<open>
  Claim C6 says that the scorer silently skips, without ever raising, every item whose
  timestamp is missing or cannot be parsed and every item published strictly before the
  cutoff, and that every other item contributes the smaller of 3.0 and 0.5 plus 1.0 for
  each keyword occurring in its lowercased title. The lemma \<open>get_news_score_eq\<close> above
  shows this for lists whose timestamps all resolve to naive values. The item below was
  published on 2020-01-01, before the cutoff 2023-12-16, with the timestamp
  \<^verbatim>\<open>2020-01-01T00:00:00+00:00\<close>: it is parsed, to an aware \<^verbatim>\<open>datetime\<close>, and the comparison
  with the naive cutoff on line 32, outside the \<^verbatim>\<open>try\<close>, raises \<^verbatim>\<open>TypeError\<close>.
\<close>

theorem news_score_aware_item_raises:
  "item_dt lib0 item_aware = Some (Aware 1577836800000000) \<and>
   1577836800000000 < since_of now0 \<and>
   get_news_score lib0 (Some [item_aware]) (since_of now0) = Inl naive_aware_error"
  using score_aware by (simp add: dt_aware since0)

subsection \<open>The rows\<close>

lemma keys_insufficient:
  "row_keys (insufficient_row t) =
     {''ticker'', ''overall'', ''gap_pct'', ''vol_ratio'', ''fresh_catalyst_score'',
      ''justified_story_score'', ''rerating_potential''}"
  by (auto simp: row_keys_def insufficient_row_def)

lemma keys_scored:
  "row_keys (scored_row t m s) =
     {''ticker'', ''gap_pct'', ''vol_ratio'', ''fresh_catalyst_score'',
      ''justified_story_score'', ''rerating_potential'', ''overall'', ''last_date'', ''price''}"
  by (auto simp: row_keys_def scored_row_def Let_def)

lemma keys_error: "row_keys (error_row t e) = {''ticker'', ''overall'', ''error''}"
  by (auto simp: row_keys_def error_row_def)

lemma try_ticker_cases:
  assumes "try_ticker lib prov since_ts t = Inr r"
  shows "(compute_gap_and_volume_metrics prov t = Inr None \<and> r = insufficient_row t) \<or>
         (\<exists>m s. compute_gap_and_volume_metrics prov t = Inr (Some m) \<and> r = scored_row t m s)"
  using assms by (auto simp: try_ticker_def split: sum.splits option.splits)

lemma process_ok: "try_ticker lib prov since_ts t = Inr r \<Longrightarrow> process_ticker lib prov since_ts t = r"
  by (simp add: process_ticker_def)

lemma process_failed:
  "try_ticker lib prov since_ts t = Inl e \<Longrightarrow> process_ticker lib prov since_ts t = error_row t e"
  by (simp add: process_ticker_def)

lemma build_loop_map:
  "build_loop lib prov since_ts ts rows = rows @ map (process_ticker lib prov since_ts) ts"
  by (induction ts arbitrary: rows) auto

text \<open>
  Claim C1, as amended. For every ticker processed without an exception the row holds the
  three sub-score fields \<^verbatim>\<open>fresh_catalyst_score\<close>, \<^verbatim>\<open>justified_story_score\<close> and
  \<^verbatim>\<open>rerating_potential\<close>, and no field \<^verbatim>\<open>institutional_interest_score\<close>; when the price
  history is insufficient each of the three is 0.0 and \<^verbatim>\<open>overall\<close> is 0.0.
\<close>

theorem row_sub_scores:
  assumes "try_ticker lib prov since_ts t = Inr r"
  shows "process_ticker lib prov since_ts t = r \<and>
    {''fresh_catalyst_score'', ''justified_story_score'', ''rerating_potential''} \<subseteq> row_keys r \<and>
    ''institutional_interest_score'' \<notin> row_keys r \<and>
    (compute_gap_and_volume_metrics prov t = Inr None \<longrightarrow>
       row_get r ''fresh_catalyst_score'' = Some (PFloat 0.0) \<and>
       row_get r ''justified_story_score'' = Some (PFloat 0.0) \<and>
       row_get r ''rerating_potential'' = Some (PFloat 0.0) \<and>
       row_get r ''overall'' = Some (PFloat 0.0))"
proof -
  have p: "process_ticker lib prov since_ts t = r"
    using assms by (rule process_ok)
  from try_ticker_cases [OF assms] show ?thesis
  proof
    assume a: "compute_gap_and_volume_metrics prov t = Inr None \<and> r = insufficient_row t"
    then have k: "row_keys r = row_keys (insufficient_row t)" by simp
    have g: "row_get (insufficient_row t) ''fresh_catalyst_score'' = Some (PFloat 0.0) \<and>
       row_get (insufficient_row t) ''justified_story_score'' = Some (PFloat 0.0) \<and>
       row_get (insufficient_row t) ''rerating_potential'' = Some (PFloat 0.0) \<and>
       row_get (insufficient_row t) ''overall'' = Some (PFloat 0.0)"
      by (simp add: row_get_def insufficient_row_def)
    show ?thesis using p a g by (simp add: keys_insufficient)
  next
    assume "\<exists>m s. compute_gap_and_volume_metrics prov t = Inr (Some m) \<and> r = scored_row t m s"
    then obtain m s where a: "compute_gap_and_volume_metrics prov t = Inr (Some m)" "r = scored_row t m s"
      by blast
    show ?thesis using p a by (simp add: keys_scored)
  qed
qed

lemma news_short: "news prov0 ''SHORT'' = Inr None"
  by (simp add: prov0_def)

lemma try_short: "try_ticker lib0 prov0 (since_of now0) ''SHORT'' = Inr (insufficient_row ''SHORT'')"
  by (simp add: try_ticker_def metrics_of_short news_short get_news_score_eq)

lemma news_long: "news prov0 ''LONG'' = Inr (Some [item_fresh, item_old, item_missing, item_bad])"
  by (simp add: prov0_def)

lemma try_long: "try_ticker lib0 prov0 (since_of now0) ''LONG'' = Inr (scored_row ''LONG'' mL 3)"
  using score_long by (simp add: try_ticker_def metrics_of_52 [OF history_long] news_long)

text \<open>The amended claim C1 at the ticker with 51 sessions.\<close>

theorem row_sub_scores_witness:
  "process_ticker lib0 prov0 (since_of now0) ''SHORT'' = insufficient_row ''SHORT'' \<and>
   row_get (insufficient_row ''SHORT'') ''rerating_potential'' = Some (PFloat 0) \<and>
   row_get (insufficient_row ''SHORT'') ''overall'' = Some (PFloat 0) \<and>
   ''institutional_interest_score'' \<notin> row_keys (insufficient_row ''SHORT'')"
  using row_sub_scores [OF try_short] metrics_of_short by simp

text \<open>
  Claim C1 as stated fails: neither the row of the ticker with 51 sessions nor the row of
  the scored ticker has the field \<^verbatim>\<open>institutional_interest_score\<close>.
\<close>

theorem inst_field_missing:
  "try_ticker lib0 prov0 (since_of now0) ''SHORT'' = Inr (insufficient_row ''SHORT'') \<and>
   ''institutional_interest_score'' \<notin> row_keys (insufficient_row ''SHORT'') \<and>
   try_ticker lib0 prov0 (since_of now0) ''LONG'' = Inr (scored_row ''LONG'' mL 3) \<and>
   ''institutional_interest_score'' \<notin> row_keys (scored_row ''LONG'' mL 3)"
  by (simp add: try_short try_long keys_insufficient keys_scored)





subsection \<open>Ranking\<close>




lemma mset_insert_row: "mset (insert_row by x ys) = add_mset x (mset ys)"
  by (induction ys) auto

lemma mset_sort_rows: "mset (sort_rows by rs) = mset rs"
  by (induction rs) (auto simp: mset_insert_row)



lemma sort_values_ok:
  assumes "set SORT_BY \<subseteq> columns rows"
  shows "sort_values rows SORT_BY = Inr (sort_rows SORT_BY rows)"
proof -
  have "filter (\<lambda>k. k \<notin> columns rows) SORT_BY = []"
    using assms by (auto simp: filter_empty_conv)
  then show ?thesis by (simp add: sort_values_def)
qed






lemma error_row_shape:
  "row_get (error_row t e) ''overall'' = Some (PFloat 0.0) \<and>
   row_get (error_row t e) ''error'' = Some (PStr (exn_str e)) \<and>
   row_keys (error_row t e) = {''ticker'', ''overall'', ''error''} \<and>
   error_row t e \<noteq> insufficient_row t"
  by (simp add: keys_error) (simp add: row_get_def error_row_def insufficient_row_def)

lemma loop_isolates_failures:
  "build_loop lib prov since_ts ts [] = map (process_ticker lib prov since_ts) ts \<and>
   (\<forall>i e. i < length ts \<and> try_ticker lib prov since_ts (ts ! i) = Inl e \<longrightarrow>
      build_loop lib prov since_ts ts [] ! i = error_row (ts ! i) e)"
  by (simp add: build_loop_map process_failed)

lemma columns_present:
  assumes "t \<in> set ts" "try_ticker lib prov since_ts t = Inr r"
  shows "set SORT_BY \<subseteq> columns (build_loop lib prov since_ts ts [])"
proof -
  have "r \<in> set (build_loop lib prov since_ts ts [])"
    using assms process_ok [OF assms(2)] by (auto simp: build_loop_map)
  moreover have "set SORT_BY \<subseteq> row_keys r"
    using try_ticker_cases [OF assms(2)]
    by (auto simp: SORT_BY_def keys_insufficient keys_scored)
  ultimately show ?thesis
    by (auto simp: columns_def)
qed

subsection \<open>The universe diff\<close>

lemma finite_prev: "finite (prev_tickers txt)"
  by (simp add: prev_tickers_def)

lemma prev_none: "prev_tickers (popen_read None) = {}"
  by (simp add: prev_tickers_def popen_read_def splitlines_def)

lemma compute_diff_eq:
  assumes "load_tickers file = Inr tickers"
  shows "compute_diff git_show file =
     Inr (sorted_list_of_set (set tickers - prev_tickers (popen_read git_show)),
          sorted_list_of_set (prev_tickers (popen_read git_show) - set tickers))"
  using assms by (simp add: compute_diff_def Let_def)

text \<open>
  Claim C9. Whenever the universe file can be read, the diff is the pair of the tickers
  of the current set that are not in the previous set and of the tickers of the previous
  set that are not in the current one, each in ascending lexicographic order without
  duplicates. When the version history gives nothing, the previous set is empty and the
  diff is still returned: every current ticker is added, none is removed.
\<close>

theorem universe_diff:
  assumes "load_tickers file = Inr tickers"
  shows "\<exists>added removed. compute_diff git_show file = Inr (added, removed) \<and>
     set added = set tickers - prev_tickers (popen_read git_show) \<and>
     set removed = prev_tickers (popen_read git_show) - set tickers \<and>
     sorted added \<and> distinct added \<and> sorted removed \<and> distinct removed \<and>
     (git_show = None \<longrightarrow>
        prev_tickers (popen_read git_show) = {} \<and> set added = set tickers \<and> removed = [])"
proof -
  let ?prev = "prev_tickers (popen_read git_show)"
  let ?added = "sorted_list_of_set (set tickers - ?prev)"
  let ?removed = "sorted_list_of_set (?prev - set tickers)"
  have fa: "finite (set tickers - ?prev)" by simp
  have fr: "finite (?prev - set tickers)" using finite_prev by simp
  have "compute_diff git_show file = Inr (?added, ?removed)"
    using assms by (rule compute_diff_eq)
  moreover have "set ?added = set tickers - ?prev" using fa by simp
  moreover have "set ?removed = ?prev - set tickers" using fr by simp
  moreover have "sorted ?added \<and> distinct ?added \<and> sorted ?removed \<and> distinct ?removed"
    by simp
  moreover have "git_show = None \<longrightarrow> ?prev = {} \<and> set ?added = set tickers \<and> ?removed = []"
    using prev_none by auto
  ultimately show ?thesis by blast
qed

lemma load_cur: "load_tickers (Inr cur_txt) = Inr [''B'', ''C'', ''D'']"
  by (simp add: cur_txt_def load_tickers_def splitlines_def split_comma_def strip_def
      isspace_def is_linebreak_def)

lemma prev_abc: "prev_tickers (popen_read (Some ''A,B,C'')) = {''A'', ''B'', ''C''}"
  by (simp add: prev_tickers_def popen_read_def splitlines_def split_comma_def strip_def
      isspace_def is_linebreak_def)

text \<open>
  Claim C9 on the example: previous A, B, C and current B, C, D give added D and removed
  A; without a previous version B, C and D are added.
\<close>

theorem universe_diff_witness:
  "compute_diff (Some ''A,B,C'') (Inr cur_txt) = Inr ([''D''], [''A'']) \<and>
   compute_diff None (Inr cur_txt) = Inr ([''B'', ''C'', ''D''], [])"
proof -
  have d1: "{''B'', ''C'', ''D''} - {''A'', ''B'', ''C''} = {''D''}" by auto
  have d2: "{''A'', ''B'', ''C''} - {''B'', ''C'', ''D''} = {''A''}" by auto
  obtain a r where x: "compute_diff (Some ''A,B,C'') (Inr cur_txt) = Inr (a, r)"
    using universe_diff [OF load_cur, of "Some ''A,B,C''"] by blast
  have "compute_diff (Some ''A,B,C'') (Inr cur_txt) = Inr ([''D''], [''A''])"
    by (simp add: compute_diff_eq [OF load_cur] prev_abc d1 d2)
  moreover have "compute_diff None (Inr cur_txt) = Inr ([''B'', ''C'', ''D''], [])"
    by (simp add: compute_diff_eq [OF load_cur] prev_none)
  ultimately show ?thesis using x by simp
qed

subsection \<open>The run as a whole\<close>

lemma news_tz: "news prov0 ''TZ'' = Inr (Some [item_aware])"
  by (simp add: prov0_def)

lemma try_tz: "try_ticker lib0 prov0 (since_of now0) ''TZ'' = Inl naive_aware_error"
  using score_aware by (simp add: try_ticker_def metrics_of_52 [OF history_tz] news_tz)

lemma row_tz:
  "process_ticker lib0 prov0 (since_of now0) ''TZ'' = error_row ''TZ'' naive_aware_error"
  by (rule process_failed [OF try_tz])

lemma all_failed_raises:
  assumes "load_tickers file = Inr ts" "ts \<noteq> []"
    and "\<forall>t\<in>set ts. \<exists>e. try_ticker lib prov (since_of now) t = Inl e"
  shows "build lib prov now file git_show = Inl (key_error ''fresh_catalyst_score'')"
proof -
  let ?rows = "build_loop lib prov (since_of now) ts []"
  have rows: "?rows = map (process_ticker lib prov (since_of now)) ts"
    by (simp add: build_loop_map)
  have keys: "\<forall>r\<in>set ?rows. row_keys r = {''ticker'', ''overall'', ''error''}"
  proof
    fix r assume "r \<in> set ?rows"
    then obtain t where t: "t \<in> set ts" "r = process_ticker lib prov (since_of now) t"
      using rows by auto
    then obtain e where "try_ticker lib prov (since_of now) t = Inl e"
      using assms(3) by blast
    then show "row_keys r = {''ticker'', ''overall'', ''error''}"
      using t by (simp add: process_failed keys_error)
  qed
  have ne: "?rows \<noteq> []" using assms(2) rows by simp
  have "columns ?rows = {''ticker'', ''overall'', ''error''}"
    using keys ne unfolding columns_def by (cases ?rows) auto
  then have "sort_values ?rows SORT_BY = Inl (key_error ''fresh_catalyst_score'')"
    by (simp add: sort_values_def SORT_BY_def)
  then show ?thesis
    using assms(1) by (simp add: build_def Let_def)
qed

lemma build_returns:
  assumes "load_tickers file = Inr ts" "t \<in> set ts"
    and "try_ticker lib prov (since_of now) t = Inr r"
  shows "\<exists>df added removed. build lib prov now file git_show = Inr (df, added, removed) \<and>
     mset df = mset (map (process_ticker lib prov (since_of now)) ts)"
proof -
  let ?rows = "build_loop lib prov (since_of now) ts []"
  have "sort_values ?rows SORT_BY = Inr (sort_rows SORT_BY ?rows)"
    using columns_present [OF assms(2,3)] by (rule sort_values_ok)
  moreover have "mset (sort_rows SORT_BY ?rows) = mset (map (process_ticker lib prov (since_of now)) ts)"
    by (simp add: mset_sort_rows build_loop_map)
  ultimately show ?thesis
    using assms(1) compute_diff_eq [OF assms(1), of git_show]
    by (simp add: build_def Let_def)
qed

lemma load_fail: "load_tickers (Inr ''FAIL'') = Inr [''FAIL'']"
  by (simp add: load_tickers_def splitlines_def split_comma_def strip_def isspace_def is_linebreak_def)

lemma history_fail: "history prov0 ''FAIL'' = Inl (Exception ''Exception'' ''no data'')"
  by (simp add: prov0_def)

lemma try_fail: "try_ticker lib0 prov0 s ''FAIL'' = Inl (Exception ''Exception'' ''no data'')"
  by (simp add: try_ticker_def compute_gap_and_volume_metrics_def history_fail)

lemma loop_fail:
  "build_loop lib0 prov0 s [''FAIL''] [] = [error_row ''FAIL'' (Exception ''Exception'' ''no data'')]"
  by (simp add: process_failed [OF try_fail])

lemma sort_fail:
  "sort_values [error_row ''FAIL'' e] SORT_BY = Inl (key_error ''fresh_catalyst_score'')"
  by (simp add: sort_values_def SORT_BY_def columns_def keys_error)

text \<open>
  Claim C8 says that a ticker whose fetch or computation raises does not abort the run:
  it yields a row with \<^verbatim>\<open>overall\<close> 0.0 and an \<^verbatim>\<open>error\<close> field and none of the other
  fields, and the run goes on. The loop does so (\<open>loop_isolates_failures\<close> above), and
  the run returns as soon as one ticker is processed without an exception
  (\<open>build_returns\<close>). But when every ticker raises, no row has the sub-score fields and
  the ranking on line 79 raises \<^verbatim>\<open>KeyError\<close> (\<open>all_failed_raises\<close>). So it is for the
  universe of the single ticker \<^verbatim>\<open>FAIL\<close>, whose fetch raises: the run is aborted.
\<close>

theorem build_all_failed_raises:
  "load_tickers (Inr ''FAIL'') = Inr [''FAIL''] \<and>
   build_loop lib0 prov0 (since_of now0) [''FAIL''] [] =
     [[(''ticker'', PStr ''FAIL''), (''overall'', PFloat 0), (''error'', PStr ''no data'')]] \<and>
   build lib0 prov0 now0 (Inr ''FAIL'') None = Inl (key_error ''fresh_catalyst_score'') \<and>
   exn_class (key_error ''fresh_catalyst_score'') = ''KeyError''"
proof -
  have l: "build_loop lib0 prov0 (since_of now0) [''FAIL''] [] =
      [error_row ''FAIL'' (Exception ''Exception'' ''no data'')]"
    by (rule loop_fail)
  have b: "build lib0 prov0 now0 (Inr ''FAIL'') None = Inl (key_error ''fresh_catalyst_score'')"
    by (simp add: build_def load_fail l sort_fail Let_def del: build_loop.simps)
  show ?thesis
    using l b by (simp add: load_fail error_row_def key_error_def del: build_loop.simps)
qed

end
